theory Spec2Isabelle
  imports Main "HOL-Library.Word"
begin

section \<open>memory\_debug.hpp: the instrumented allocations\<close>

text \<open>
  A shallow embedding of \<^verbatim>\<open>src/memory_debug.hpp\<close>. Objects live in an explicit store:
  \<^verbatim>\<open>Trunk\<close> objects, the \<^verbatim>\<open>bool\<close> and \<^verbatim>\<open>size_t\<close> cells a \<^verbatim>\<open>Trunk\<close> points to, and the
  \<^verbatim>\<open>T[]\<close> blocks. A member function takes the address \<open>this\<close> and the store and returns
  its result with the new store. \<^verbatim>\<open>exit(n)\<close> never returns: it is the result \<open>Exit n\<close>,
  which ends every enclosing call. \<^verbatim>\<open>std::cout\<close> is the list of records printed so far.
\<close>

type_synonym size_t = "64 word"
type_synonym addr = nat

subsection \<open>Trace\<close>

record Trace =
  t_file :: string
  t_line :: int

text \<open>\<^verbatim>\<open>Trace(): Trace("", 0)\<close>\<close>

definition Trace_default :: Trace where
  "Trace_default = \<lparr>t_file = [], t_line = 0\<rparr>"

subsection \<open>What the program prints, and how a call ends\<close>

text \<open>
  One constructor for each block written to \<^verbatim>\<open>std::cout\<close>, holding the values the block
  interpolates, in the order of the text:
  \<^item> \<open>FreedAsDeleteArray\<close>: "Allocated as NEW but freed as DELETE\_ARRAY!", allocated, freed;
  \<^item> \<open>FreedAsDelete\<close>: "Allocated as NEW\_ARRAY but freed as DELETE!", allocated, freed;
  \<^item> \<open>DoubleFree\<close>: "Double free detected!", 1st free, 2nd free;
  \<^item> \<open>MemoryLeak\<close>: "Memory leak detected!", allocated;
  \<^item> \<open>IndexOutOfBoundary\<close>: "Index out of boundary!", index, size, allocated;
  \<^item> \<open>AccessAfterFreed\<close>: "Access after freed!", 1st free.
\<close>

datatype diagnostic =
    FreedAsDeleteArray Trace Trace
  | FreedAsDelete Trace Trace
  | DoubleFree Trace Trace
  | MemoryLeak Trace
  | IndexOutOfBoundary size_t size_t Trace
  | AccessAfterFreed Trace

text \<open>
  \<open>Ret x\<close>: the call returns \<open>x\<close>. \<open>Exit n\<close>: the call reached \<^verbatim>\<open>exit(n)\<close>.
  \<open>Abort\<close>: an \<^verbatim>\<open>assert\<close> failed. \<open>Undefined\<close>: the call ran into undefined
  behaviour, by using a pointer to no live \<^verbatim>\<open>Trunk\<close> object or by applying \<^verbatim>\<open>delete []\<close>
  to a block that was released before; nothing is known of what the program does from
  there on, and no statement after it is reached.
\<close>

datatype 'r result = Ret 'r | Exit int | Abort | Undefined

text \<open>Sequencing of two statements: the second runs only when the first returns.\<close>

fun andThen :: "'r result \<times> 's \<Rightarrow> ('r \<Rightarrow> 's \<Rightarrow> 'q result \<times> 's) \<Rightarrow> 'q result \<times> 's" where
  "andThen (Ret x, s) f = f x s"
| "andThen (Exit n, s) f = (Exit n, s)"
| "andThen (Abort, s) f = (Abort, s)"
| "andThen (Undefined, s) f = (Undefined, s)"

subsection \<open>The store\<close>

text \<open>\<^verbatim>\<open>Trunk::Iter\<close>: the members \<^verbatim>\<open>_trunk\<close> and \<^verbatim>\<open>_idx\<close>.\<close>

record Iter =
  it_trunk :: addr
  it_idx :: size_t

text \<open>
  \<^verbatim>\<open>Trunk<T>\<close>: the members in the order of their declaration. \<^verbatim>\<open>_allocated\<close>,
  \<^verbatim>\<open>_freed\<close>, \<^verbatim>\<open>_single\<close>, \<^verbatim>\<open>_size\<close> and \<^verbatim>\<open>_iter\<close> are held by value in each
  object; \<^verbatim>\<open>_data\<close>, \<^verbatim>\<open>_deleted\<close> and \<^verbatim>\<open>_refcount\<close> are pointers.
\<close>

record Trunk =
  m_allocated :: Trace
  m_freed :: Trace
  m_single :: bool
  m_data :: addr
  m_size :: size_t
  m_iter :: Iter
  m_deleted :: addr
  m_refcount :: addr

text \<open>
  A \<^verbatim>\<open>T[]\<close> block: its elements (\<open>None\<close> for an element never written, as
  \<^verbatim>\<open>new T[count]\<close> leaves an \<^verbatim>\<open>int\<close>) and the number of times \<^verbatim>\<open>delete []\<close> was
  applied to it.
\<close>

record 'a block =
  cells :: "'a option list"
  released :: nat

record 'a memory =
  trunks :: "addr \<rightharpoonup> Trunk"
  bools :: "addr \<Rightarrow> bool"
  sizes :: "addr \<Rightarrow> size_t"
  arrays :: "addr \<Rightarrow> 'a block"
  brk :: addr
  pool :: "addr list"
  cout :: "diagnostic list"

definition init_memory :: "'a memory" where
  "init_memory = \<lparr>trunks = Map.empty, bools = (\<lambda>_. False), sizes = (\<lambda>_. 0),
     arrays = (\<lambda>_. \<lparr>cells = [], released = 0\<rparr>), brk = 0, pool = [], cout = []\<rparr>"

text \<open>\<^verbatim>\<open>std::cout << ... << std::endl\<close>\<close>

definition print :: "diagnostic \<Rightarrow> 'a memory \<Rightarrow> 'a memory" where
  "print d s = s\<lparr>cout := cout s @ [d]\<rparr>"

text \<open>\<^verbatim>\<open>new T[count]\<close>, \<^verbatim>\<open>new bool(v)\<close>, \<^verbatim>\<open>new size_t(v)\<close>: the next free address.\<close>

definition new_array :: "size_t \<Rightarrow> 'a memory \<Rightarrow> addr \<times> 'a memory" where
  "new_array count s =
     (brk s, s\<lparr>arrays := (arrays s)(brk s := \<lparr>cells = replicate (unat count) None, released = 0\<rparr>),
               brk := Suc (brk s)\<rparr>)"

definition new_bool :: "bool \<Rightarrow> 'a memory \<Rightarrow> addr \<times> 'a memory" where
  "new_bool v s = (brk s, s\<lparr>bools := (bools s)(brk s := v), brk := Suc (brk s)\<rparr>)"

definition new_size_t :: "size_t \<Rightarrow> 'a memory \<Rightarrow> addr \<times> 'a memory" where
  "new_size_t v s = (brk s, s\<lparr>sizes := (sizes s)(brk s := v), brk := Suc (brk s)\<rparr>)"

text \<open>
  \<^verbatim>\<open>delete [] p\<close>. The first \<^verbatim>\<open>delete []\<close> of a block releases it and returns. Any later
  one is undefined behaviour: the count records that it was applied, and the call ends
  there.
\<close>

definition delete_array :: "addr \<Rightarrow> 'a memory \<Rightarrow> unit result \<times> 'a memory" where
  "delete_array p s =
     (if released (arrays s p) = 0 then Ret () else Undefined,
      s\<lparr>arrays := (arrays s)(p := (arrays s p)\<lparr>released := Suc (released (arrays s p))\<rparr>)\<rparr>)"

subsection \<open>Trunk::Iter\<close>

text \<open>
  Each operator returns the \<^verbatim>\<open>Iter\<close> it returns by value, paired with the new value of
  the object it was called on.
  \<^verbatim>\<open>operator++()\<close> is \<open>Iter_preinc\<close>, \<^verbatim>\<open>operator++(int)\<close> is \<open>Iter_postinc\<close>,
  \<^verbatim>\<open>operator--()\<close> is \<open>Iter_predec\<close>, \<^verbatim>\<open>operator--(int)\<close> is \<open>Iter_postdec\<close>.
\<close>

definition Iter_preinc :: "Iter \<Rightarrow> Iter \<times> Iter" where
  "Iter_preinc it = (let old = it in (old, it\<lparr>it_idx := it_idx it + 1\<rparr>))"

definition Iter_postinc :: "Iter \<Rightarrow> Iter \<times> Iter" where
  "Iter_postinc it = (let it' = it\<lparr>it_idx := it_idx it + 1\<rparr> in (it', it'))"

definition Iter_predec :: "Iter \<Rightarrow> Iter \<times> Iter" where
  "Iter_predec it = (let old = it in (old, it\<lparr>it_idx := it_idx it - 1\<rparr>))"

definition Iter_postdec :: "Iter \<Rightarrow> Iter \<times> Iter" where
  "Iter_postdec it = (let it' = it\<lparr>it_idx := it_idx it - 1\<rparr> in (it', it'))"

text \<open>
  \<^verbatim>\<open>operator+(int offset)\<close> and \<^verbatim>\<open>operator-(int offset)\<close>: \<^verbatim>\<open>_idx\<close> is a \<^verbatim>\<open>size_t\<close>, so
  the \<^verbatim>\<open>int\<close> is converted to \<^verbatim>\<open>size_t\<close> (sign extended) and the sum wraps.
\<close>

definition Iter_plus :: "Iter \<Rightarrow> 32 word \<Rightarrow> Iter" where
  "Iter_plus it offset = \<lparr>it_trunk = it_trunk it, it_idx = it_idx it + scast offset\<rparr>"

definition Iter_minus :: "Iter \<Rightarrow> 32 word \<Rightarrow> Iter" where
  "Iter_minus it offset = \<lparr>it_trunk = it_trunk it, it_idx = it_idx it - scast offset\<rparr>"

text \<open>
  \<^verbatim>\<open>T& operator*() { return _trunk[_idx]; }\<close> has no counterpart here. \<^verbatim>\<open>_trunk\<close> is a
  \<^verbatim>\<open>Trunk*\<close>, so the subscript is the built-in one on pointers, \<^verbatim>\<open>*(_trunk + _idx)\<close>, of type
  \<^verbatim>\<open>Trunk<T>\<close>: it is not a call of \<^verbatim>\<open>Trunk::operator[]\<close>, and it does not bind to the
  declared \<^verbatim>\<open>T&\<close>. The operator is rejected by the compiler as soon as a program uses it,
  so no program runs it and there is nothing to evaluate.
\<close>

subsection \<open>Trunk: the private members\<close>

definition cleanup_and_exit :: "addr \<Rightarrow> int \<Rightarrow> 'a memory \<Rightarrow> unit result \<times> 'a memory" where
  "cleanup_and_exit this no s =
     (case trunks s this of
        None \<Rightarrow> (Undefined, s)
      | Some t \<Rightarrow>
          andThen (delete_array (m_data t) s)
            (\<lambda>_ s1. (Exit no, s1\<lparr>bools := (bools s1)(m_deleted t := True)\<rparr>)))"

definition give_up_ref :: "addr \<Rightarrow> 'a memory \<Rightarrow> unit result \<times> 'a memory" where
  "give_up_ref this s =
     (case trunks s this of
        None \<Rightarrow> (Undefined, s)
      | Some t \<Rightarrow>
          (let s1 = s\<lparr>sizes := (sizes s)(m_refcount t := sizes s (m_refcount t) - 1)\<rparr>
           in if sizes s1 (m_refcount t) = 0 \<and> \<not> bools s1 (m_deleted t)
              then cleanup_and_exit this 11 (print (MemoryLeak (m_allocated t)) s1)
              else (Ret (), s1)))"

definition check_access_after_freed :: "addr \<Rightarrow> 'a memory \<Rightarrow> unit result \<times> 'a memory" where
  "check_access_after_freed this s =
     (case trunks s this of
        None \<Rightarrow> (Undefined, s)
      | Some t \<Rightarrow>
          (if bools s (m_deleted t)
           then (Exit 14, print (AccessAfterFreed (m_freed t)) s)
           else (Ret (), s)))"

definition validate :: "addr \<Rightarrow> size_t \<Rightarrow> 'a memory \<Rightarrow> unit result \<times> 'a memory" where
  "validate this idx s =
     (case trunks s this of
        None \<Rightarrow> (Undefined, s)
      | Some t \<Rightarrow>
          andThen
            (if idx \<ge> m_size t
             then cleanup_and_exit this 13
                    (print (IndexOutOfBoundary idx (m_size t) (m_allocated t)) s)
             else (Ret (), s))
            (\<lambda>_. check_access_after_freed this))"

subsection \<open>Trunk: the public members\<close>

text \<open>
  The constructor, at the address \<open>this\<close>. The members are initialised in the order of
  their declaration; the assertions of the body run afterwards.
\<close>

definition Trunk_ctor :: "addr \<Rightarrow> Trace \<Rightarrow> size_t \<Rightarrow> bool \<Rightarrow> 'a memory \<Rightarrow> unit result \<times> 'a memory" where
  "Trunk_ctor this allocated count single s =
     (let (d, s1) = new_array count s;
          (del, s2) = new_bool False s1;
          (rc, s3) = new_size_t 1 s2;
          s4 = s3\<lparr>trunks := (trunks s3)(this \<mapsto>
                 \<lparr>m_allocated = allocated, m_freed = Trace_default, m_single = single,
                  m_data = d, m_size = count, m_iter = \<lparr>it_trunk = this, it_idx = 0\<rparr>,
                  m_deleted = del, m_refcount = rc\<rparr>)\<rparr>
      in if single then (if count = 1 then (Ret (), s4) else (Abort, s4))
         else (if count \<ge> 1 then (Ret (), s4) else (Abort, s4)))"

text \<open>
  \<^verbatim>\<open>Trunk\<close> declares no copy constructor, so the language supplies the memberwise one:
  every member of \<open>that\<close> is copied, \<^verbatim>\<open>_iter\<close> through \<^verbatim>\<open>Iter(const Iter&)\<close>, which keeps
  \<^verbatim>\<open>_trunk\<close> and \<^verbatim>\<open>_idx\<close>. Nothing else runs.
\<close>

definition Trunk_copy_ctor :: "addr \<Rightarrow> addr \<Rightarrow> 'a memory \<Rightarrow> unit result \<times> 'a memory" where
  "Trunk_copy_ctor this that s =
     (case trunks s that of
        None \<Rightarrow> (Undefined, s)
      | Some u \<Rightarrow> (Ret (), s\<lparr>trunks := (trunks s)(this \<mapsto> u)\<rparr>))"

text \<open>\<^verbatim>\<open>Trunk& operator=(const Trunk& that)\<close>; the result is the address of \<^verbatim>\<open>*this\<close>.\<close>

definition operator_assign :: "addr \<Rightarrow> addr \<Rightarrow> 'a memory \<Rightarrow> addr result \<times> 'a memory" where
  "operator_assign this that s =
     (if this = that then (Ret this, s)
      else andThen (give_up_ref this s) (\<lambda>_ s1.
        case trunks s1 that of
          None \<Rightarrow> (Undefined, s1)
        | Some u \<Rightarrow>
            (let s2 = s1\<lparr>trunks := (trunks s1)(this \<mapsto>
                        u\<lparr>m_iter := \<lparr>it_trunk = this, it_idx = it_idx (m_iter u)\<rparr>\<rparr>)\<rparr>;
                 s3 = s2\<lparr>sizes := (sizes s2)(m_refcount u := sizes s2 (m_refcount u) + 1)\<rparr>
             in (Ret this, s3))))"

text \<open>\<^verbatim>\<open>~Trunk()\<close>: after the body the object is gone.\<close>

definition Trunk_dtor :: "addr \<Rightarrow> 'a memory \<Rightarrow> unit result \<times> 'a memory" where
  "Trunk_dtor this s =
     andThen (give_up_ref this s) (\<lambda>_ s1. (Ret (), s1\<lparr>trunks := (trunks s1)(this := None)\<rparr>))"

text \<open>\<^verbatim>\<open>void free(const Trace& trace, bool single)\<close>\<close>

definition free :: "addr \<Rightarrow> Trace \<Rightarrow> bool \<Rightarrow> 'a memory \<Rightarrow> unit result \<times> 'a memory" where
  "free this trace single s =
     (case trunks s this of
        None \<Rightarrow> (Undefined, s)
      | Some t \<Rightarrow>
          andThen
            (if m_single t \<and> \<not> single
             then cleanup_and_exit this 21 (print (FreedAsDeleteArray (m_allocated t) trace) s)
             else if \<not> m_single t \<and> single
             then cleanup_and_exit this 22 (print (FreedAsDelete (m_allocated t) trace) s)
             else (Ret (), s))
            (\<lambda>_ s1.
               if bools s1 (m_deleted t)
               then (Exit 12, print (DoubleFree (m_freed t) trace) s1)
               else
                 andThen (delete_array (m_data t) s1)
                   (\<lambda>_ s2.
                      let s3 = s2\<lparr>bools := (bools s2)(m_deleted t := True)\<rparr>;
                          s4 = s3\<lparr>trunks := (trunks s3)(this \<mapsto> t\<lparr>m_freed := trace\<rparr>)\<rparr>
                      in (Ret (), s4))))"

text \<open>\<^verbatim>\<open>data()\<close>, \<^verbatim>\<open>size()\<close>, \<^verbatim>\<open>refcount()\<close>\<close>

definition data :: "addr \<Rightarrow> 'a memory \<Rightarrow> addr result" where
  "data this s = (case trunks s this of None \<Rightarrow> Undefined | Some t \<Rightarrow> Ret (m_data t))"

definition Trunk_size :: "addr \<Rightarrow> 'a memory \<Rightarrow> size_t result" where
  "Trunk_size this s = (case trunks s this of None \<Rightarrow> Undefined | Some t \<Rightarrow> Ret (m_size t))"

definition refcount :: "addr \<Rightarrow> 'a memory \<Rightarrow> size_t result" where
  "refcount this s =
     (case trunks s this of None \<Rightarrow> Undefined | Some t \<Rightarrow> Ret (sizes s (m_refcount t)))"

text \<open>
  \<^verbatim>\<open>T& operator[](size_t idx)\<close> and \<^verbatim>\<open>T& operator*()\<close>: the reference returned is the
  block and the position in it.
\<close>

definition operator_index :: "addr \<Rightarrow> size_t \<Rightarrow> 'a memory \<Rightarrow> (addr \<times> size_t) result \<times> 'a memory" where
  "operator_index this idx s =
     andThen (validate this idx s) (\<lambda>_ s1.
       case trunks s1 this of
         None \<Rightarrow> (Undefined, s1)
       | Some t \<Rightarrow> (Ret (m_data t, idx), s1))"

definition operator_deref :: "addr \<Rightarrow> 'a memory \<Rightarrow> (addr \<times> size_t) result \<times> 'a memory" where
  "operator_deref this s =
     andThen (check_access_after_freed this s) (\<lambda>_ s1.
       case trunks s1 this of
         None \<Rightarrow> (Undefined, s1)
       | Some t \<Rightarrow> (Ret (m_data t, 0), s1))"

text \<open>Reading and writing through a \<^verbatim>\<open>T&\<close> that the two operators returned.\<close>

definition load :: "addr \<times> size_t \<Rightarrow> 'a memory \<Rightarrow> 'a option" where
  "load r s =
     (if unat (snd r) < length (cells (arrays s (fst r)))
      then cells (arrays s (fst r)) ! unat (snd r) else None)"

definition store :: "addr \<times> size_t \<Rightarrow> 'a \<Rightarrow> 'a memory \<Rightarrow> 'a memory" where
  "store r v s =
     s\<lparr>arrays := (arrays s)(fst r :=
          (arrays s (fst r))\<lparr>cells := (cells (arrays s (fst r)))[unat (snd r) := Some v]\<rparr>)\<rparr>"

text \<open>
  The arithmetic operators of \<^verbatim>\<open>Trunk\<close>, each on the member \<^verbatim>\<open>_iter\<close>:
  \<^verbatim>\<open>operator++()\<close> is \<^verbatim>\<open>return _iter++;\<close> and \<^verbatim>\<open>operator++(int)\<close> is
  \<^verbatim>\<open>return ++_iter;\<close>, and likewise for \<^verbatim>\<open>--\<close>.
\<close>

definition with_iter :: "(Iter \<Rightarrow> Iter \<times> Iter) \<Rightarrow> addr \<Rightarrow> 'a memory \<Rightarrow> Iter result \<times> 'a memory" where
  "with_iter f this s =
     (case trunks s this of
        None \<Rightarrow> (Undefined, s)
      | Some t \<Rightarrow>
          (let (r, it') = f (m_iter t)
           in (Ret r, s\<lparr>trunks := (trunks s)(this \<mapsto> t\<lparr>m_iter := it'\<rparr>)\<rparr>)))"

definition Trunk_preinc :: "addr \<Rightarrow> 'a memory \<Rightarrow> Iter result \<times> 'a memory" where
  "Trunk_preinc = with_iter Iter_postinc"

definition Trunk_postinc :: "addr \<Rightarrow> 'a memory \<Rightarrow> Iter result \<times> 'a memory" where
  "Trunk_postinc = with_iter Iter_preinc"

definition Trunk_predec :: "addr \<Rightarrow> 'a memory \<Rightarrow> Iter result \<times> 'a memory" where
  "Trunk_predec = with_iter Iter_postdec"

definition Trunk_postdec :: "addr \<Rightarrow> 'a memory \<Rightarrow> Iter result \<times> 'a memory" where
  "Trunk_postdec = with_iter Iter_predec"

definition Trunk_plus :: "addr \<Rightarrow> 32 word \<Rightarrow> 'a memory \<Rightarrow> Iter result \<times> 'a memory" where
  "Trunk_plus this offset s =
     (case trunks s this of
        None \<Rightarrow> (Undefined, s)
      | Some t \<Rightarrow> (Ret (Iter_plus (m_iter t) offset), s))"

definition Trunk_minus :: "addr \<Rightarrow> 32 word \<Rightarrow> 'a memory \<Rightarrow> Iter result \<times> 'a memory" where
  "Trunk_minus this offset s =
     (case trunks s this of
        None \<Rightarrow> (Undefined, s)
      | Some t \<Rightarrow> (Ret (Iter_minus (m_iter t) offset), s))"

subsection \<open>Allocator\<close>

text \<open>
  \<^verbatim>\<open>alloc<T>(count, file, line, single)\<close>: \<^verbatim>\<open>new Trunk<T>(...)\<close> at the next free address,
  then \<^verbatim>\<open>pool.push_back(p)\<close>. The macros \<^verbatim>\<open>NEW_ARRAY\<close>, \<^verbatim>\<open>NEW\<close>, \<^verbatim>\<open>DELETE_ARRAY\<close> and
  \<^verbatim>\<open>DELETE\<close> call \<open>alloc\<close> and \<open>free\<close> with \<open>single\<close> false, true, false and true.
\<close>

definition alloc :: "size_t \<Rightarrow> string \<Rightarrow> int \<Rightarrow> bool \<Rightarrow> 'a memory \<Rightarrow> addr result \<times> 'a memory" where
  "alloc count f l single s =
     (let p = brk s
      in andThen (Trunk_ctor p \<lparr>t_file = f, t_line = l\<rparr> count single (s\<lparr>brk := Suc p\<rparr>))
           (\<lambda>_ s1. (Ret p, s1\<lparr>pool := pool s1 @ [p]\<rparr>)))"

subsection \<open>Observations and client programs\<close>

text \<open>The cursor of a handle object: \<^verbatim>\<open>_iter._idx\<close>.\<close>

definition cursor :: "addr \<Rightarrow> 'a memory \<Rightarrow> size_t option" where
  "cursor this s = (case trunks s this of None \<Rightarrow> None | Some t \<Rightarrow> Some (it_idx (m_iter t)))"

text \<open>
  Two live handle objects refer to the same logical allocation when their three pointers
  agree: the block, the \<^verbatim>\<open>deleted\<close> cell and the \<^verbatim>\<open>refcount\<close> cell.
\<close>

definition same_allocation :: "addr \<Rightarrow> addr \<Rightarrow> 'a memory \<Rightarrow> bool" where
  "same_allocation h1 h2 s =
     (case (trunks s h1, trunks s h2) of
        (Some t, Some u) \<Rightarrow>
          m_data t = m_data u \<and> m_deleted t = m_deleted u \<and> m_refcount t = m_refcount u
      | _ \<Rightarrow> False)"

text \<open>
  \<^verbatim>\<open>PTR(int) a = NEW_ARRAY(int, 4);\<close> at \<^verbatim>\<open>f:1\<close>, in the empty store. The \<^verbatim>\<open>Trunk\<close> is at
  address 0, its block at 1, its \<^verbatim>\<open>deleted\<close> cell at 2, its \<^verbatim>\<open>refcount\<close> cell at 3.
\<close>

definition prog_array :: "int memory" where
  "prog_array = snd (alloc 4 ''f'' 1 False init_memory)"

text \<open>... followed by \<^verbatim>\<open>DELETE_ARRAY(a);\<close> at \<^verbatim>\<open>f:2\<close>.\<close>

definition prog_freed :: "int memory" where
  "prog_freed = snd (free 0 \<lparr>t_file = ''f'', t_line = 2\<rparr> False prog_array)"

text \<open>
  \<^verbatim>\<open>PTR(int) a = NEW_ARRAY(int, 4);\<close> at \<^verbatim>\<open>f:1\<close>, \<^verbatim>\<open>PTR(int) b = NEW_ARRAY(int, 1);\<close> at
  \<^verbatim>\<open>g:1\<close> (the \<^verbatim>\<open>Trunk\<close> at address 4), \<^verbatim>\<open>DELETE_ARRAY(b);\<close> at \<^verbatim>\<open>g:2\<close>, then
  \<^verbatim>\<open>b = a;\<close>: two handle objects for the allocation of \<^verbatim>\<open>a\<close>.
\<close>

definition prog_alias :: "int memory" where
  "prog_alias =
     snd (operator_assign 4 0
       (snd (free 4 \<lparr>t_file = ''g'', t_line = 2\<rparr> False
         (snd (alloc 1 ''g'' 1 False prog_array)))))"

text \<open>
  \<^verbatim>\<open>PTR(int) a = NEW_ARRAY(int, 4);\<close> at \<^verbatim>\<open>f:1\<close>, then \<^verbatim>\<open>mem::Trunk<int> c(a);\<close> with
  the object \<^verbatim>\<open>c\<close>, a local variable, at address 100.
\<close>

definition prog_copy :: "int memory" where
  "prog_copy = snd (Trunk_copy_ctor 100 0 prog_array)"

text \<open>
  What every store that a program reaches satisfies: the pointers of a handle object are
  below the next free address, the block of an allocation that is not deleted has not been
  released, and two handle objects share the block exactly when they share the
  \<^verbatim>\<open>deleted\<close> cell.
\<close>

definition store_ok :: "'a memory \<Rightarrow> bool" where
  "store_ok s \<longleftrightarrow>
     (\<forall>h t. trunks s h = Some t \<longrightarrow>
        m_data t < brk s \<and> m_deleted t < brk s \<and>
        (bools s (m_deleted t) \<or> released (arrays s (m_data t)) = 0)) \<and>
     (\<forall>h t h' t'. trunks s h = Some t \<and> trunks s h' = Some t' \<longrightarrow>
        (m_data t = m_data t') = (m_deleted t = m_deleted t'))"

lemmas run_defs = alloc_def Trunk_ctor_def new_array_def new_bool_def new_size_t_def
  init_memory_def free_def cleanup_and_exit_def delete_array_def print_def Let_def validate_def
  check_access_after_freed_def operator_index_def give_up_ref_def operator_assign_def
  Trunk_dtor_def Trace_default_def Trunk_copy_ctor_def with_iter_def Trunk_preinc_def
  Trunk_postinc_def Trunk_predec_def Trunk_postdec_def Iter_preinc_def Iter_postinc_def
  Iter_predec_def Iter_postdec_def Iter_plus_def Iter_minus_def Trunk_plus_def Trunk_minus_def
  cursor_def same_allocation_def refcount_def
  prog_array_def prog_freed_def prog_alias_def prog_copy_def

section \<open>Element access\<close>








section \<open>Releasing the buffer\<close>

text \<open>
  C2. The claim has the buffer released exactly once, also when a free of the wrong kind
  follows a successful free. In the program
  \<^verbatim>\<open>a = NEW_ARRAY(int, 4); DELETE_ARRAY(a); DELETE(a);\<close> the block has been released once
  when \<^verbatim>\<open>DELETE(a)\<close> runs; the mismatch path prints its record and goes through
  \<^verbatim>\<open>cleanup_and_exit(22)\<close>, which applies \<^verbatim>\<open>delete []\<close> to the block again: a second
  release, which is undefined behaviour, so that \<^verbatim>\<open>exit(22)\<close> is not reached.
\<close>

theorem free_mismatch_after_free_releases_twice:
  "released (arrays prog_freed 1) = 1 \<and>
   fst (free 0 \<lparr>t_file = ''f'', t_line = 3\<rparr> True prog_freed) = Undefined \<and>
   cout (snd (free 0 \<lparr>t_file = ''f'', t_line = 3\<rparr> True prog_freed)) =
     [FreedAsDelete \<lparr>t_file = ''f'', t_line = 1\<rparr> \<lparr>t_file = ''f'', t_line = 3\<rparr>] \<and>
   released (arrays (snd (free 0 \<lparr>t_file = ''f'', t_line = 3\<rparr> True prog_freed)) 1) = 2"
  by (simp add: run_defs)

section \<open>The cursor\<close>

text \<open>
  C3, as stated, fails. After \<^verbatim>\<open>b = a\<close> the handle objects at 0 and 4 refer to the same
  logical allocation and both cursors are 0. \<^verbatim>\<open>++a\<close> moves the cursor of the object at 0
  to 1; the cursor seen through the object at 4 is still 0.
\<close>

theorem cursor_not_shared_counterexample:
  "same_allocation 0 4 prog_alias \<and>
   cursor 0 prog_alias = Some 0 \<and> cursor 4 prog_alias = Some 0 \<and>
   cursor 0 (snd (Trunk_preinc 0 prog_alias)) = Some 1 \<and>
   cursor 4 (snd (Trunk_preinc 0 prog_alias)) = Some 0"
  by (simp add: run_defs)

text \<open>
  C3, amended. The cursor is a member of each handle object. Each of the four increment
  and decrement operators moves the cursor of the handle object it is called on by one
  (wrapping, as a \<^verbatim>\<open>size_t\<close> does) and leaves the cursor of every other handle object as
  it was, whether or not that object refers to the same logical allocation.
\<close>

theorem cursor_per_handle:
  assumes "trunks s this = Some t" and "other \<noteq> this"
  shows "cursor this (snd (Trunk_preinc this s)) = Some (it_idx (m_iter t) + 1) \<and>
         cursor this (snd (Trunk_postinc this s)) = Some (it_idx (m_iter t) + 1) \<and>
         cursor this (snd (Trunk_predec this s)) = Some (it_idx (m_iter t) - 1) \<and>
         cursor this (snd (Trunk_postdec this s)) = Some (it_idx (m_iter t) - 1) \<and>
         cursor other (snd (Trunk_preinc this s)) = cursor other s \<and>
         cursor other (snd (Trunk_postinc this s)) = cursor other s \<and>
         cursor other (snd (Trunk_predec this s)) = cursor other s \<and>
         cursor other (snd (Trunk_postdec this s)) = cursor other s"
  using assms
  by (simp add: cursor_def with_iter_def Trunk_preinc_def Trunk_postinc_def Trunk_predec_def
      Trunk_postdec_def Iter_preinc_def Iter_postinc_def Iter_predec_def Iter_postdec_def Let_def)

text \<open>The amended C3 at the two aliases of \<open>prog_alias\<close>.\<close>

theorem cursor_per_handle_witness:
  "trunks prog_alias 0 \<noteq> None \<and> (4::nat) \<noteq> 0 \<and>
   cursor 0 (snd (Trunk_preinc 0 prog_alias)) = Some 1 \<and>
   cursor 4 (snd (Trunk_preinc 0 prog_alias)) = cursor 4 prog_alias"
  using cursor_per_handle [of prog_alias 0 "the (trunks prog_alias 0)" 4]
  by (simp add: run_defs)

section \<open>Assignment and copies of handles\<close>

lemma give_up_ref_no_leak:
  assumes "trunks s this = Some t"
    and "sizes s (m_refcount t) \<noteq> 1 \<or> bools s (m_deleted t)"
  shows "give_up_ref this s =
           (Ret (), s\<lparr>sizes := (sizes s)(m_refcount t := sizes s (m_refcount t) - 1)\<rparr>)"
  using assms by (auto simp add: give_up_ref_def Let_def)

text \<open>
  C4, as stated, fails. In \<open>prog_alias\<close> followed by \<^verbatim>\<open>++a\<close>, the handle objects at 4 and 0
  refer to the same logical allocation and are different objects. \<^verbatim>\<open>b = a\<close> is not a
  no-op there: it replaces the cursor of \<^verbatim>\<open>b\<close>, 0, by that of \<^verbatim>\<open>a\<close>, 1.
\<close>

theorem assign_alias_not_noop_counterexample:
  "same_allocation 4 0 (snd (Trunk_preinc 0 prog_alias)) \<and>
   cursor 4 (snd (Trunk_preinc 0 prog_alias)) = Some 0 \<and>
   cursor 4 (snd (operator_assign 4 0 (snd (Trunk_preinc 0 prog_alias)))) = Some 1 \<and>
   snd (operator_assign 4 0 (snd (Trunk_preinc 0 prog_alias))) \<noteq> snd (Trunk_preinc 0 prog_alias)"
proof -
  have c: "cursor 4 (snd (Trunk_preinc 0 prog_alias)) = Some 0"
    by (simp add: run_defs)
  have d: "cursor 4 (snd (operator_assign 4 0 (snd (Trunk_preinc 0 prog_alias)))) = Some 1"
    by (simp add: run_defs)
  have a: "same_allocation 4 0 (snd (Trunk_preinc 0 prog_alias))"
    by (simp add: run_defs)
  from c d have "snd (operator_assign 4 0 (snd (Trunk_preinc 0 prog_alias))) \<noteq>
      snd (Trunk_preinc 0 prog_alias)"
    by auto
  with a c d show ?thesis by blast
qed

text \<open>
  C4, amended. The guard of \<^verbatim>\<open>operator=\<close> is \<^verbatim>\<open>this == &that\<close>: assigning a handle object
  to itself is a no-op. For two different handle objects that share the \<^verbatim>\<open>refcount\<close> and
  \<^verbatim>\<open>deleted\<close> cells the assignment runs \<^verbatim>\<open>give_up_ref\<close>; when the count is not 1 or the
  allocation is already freed, nothing is printed, the call returns, the count ends as it
  began, and the members of \<open>this\<close> are replaced by those of \<open>that\<close> (its cursor too).
\<close>

theorem operator_assign_cases:
  assumes "trunks s this = Some t" and "trunks s that = Some u"
    and "m_refcount t = m_refcount u" and "m_deleted t = m_deleted u"
  shows "operator_assign this this s = (Ret this, s) \<and>
         (this \<noteq> that \<and> (sizes s (m_refcount t) \<noteq> 1 \<or> bools s (m_deleted t)) \<longrightarrow>
          operator_assign this that s =
            (Ret this, s\<lparr>trunks := (trunks s)(this \<mapsto>
               u\<lparr>m_iter := \<lparr>it_trunk = this, it_idx = it_idx (m_iter u)\<rparr>\<rparr>)\<rparr>))"
proof (intro conjI impI)
  show "operator_assign this this s = (Ret this, s)"
    by (simp add: operator_assign_def)
next
  assume a: "this \<noteq> that \<and> (sizes s (m_refcount t) \<noteq> 1 \<or> bools s (m_deleted t))"
  have g: "give_up_ref this s =
      (Ret (), s\<lparr>sizes := (sizes s)(m_refcount t := sizes s (m_refcount t) - 1)\<rparr>)"
    using assms(1) a by (simp add: give_up_ref_no_leak)
  have restored: "(sizes s)(m_refcount u := sizes s (m_refcount u) - 1 + 1) = sizes s"
    by (simp add: fun_eq_iff)
  show "operator_assign this that s =
           (Ret this, s\<lparr>trunks := (trunks s)(this \<mapsto>
              u\<lparr>m_iter := \<lparr>it_trunk = this, it_idx = it_idx (m_iter u)\<rparr>\<rparr>)\<rparr>)"
    using a assms(2,3) by (simp add: operator_assign_def g Let_def restored)
qed

text \<open>The amended C4 at the two aliases of \<open>prog_alias\<close>, whose count is 2.\<close>

theorem operator_assign_cases_witness:
  "trunks prog_alias 4 \<noteq> None \<and> trunks prog_alias 0 \<noteq> None \<and>
   sizes prog_alias 3 = 2 \<and>
   operator_assign 4 4 prog_alias = (Ret 4, prog_alias) \<and>
   fst (operator_assign 4 0 prog_alias) = Ret 4 \<and>
   sizes (snd (operator_assign 4 0 prog_alias)) = sizes prog_alias \<and>
   cout (snd (operator_assign 4 0 prog_alias)) = cout prog_alias"
  using operator_assign_cases [of prog_alias 4 "the (trunks prog_alias 4)" 0
      "the (trunks prog_alias 0)"]
  by (simp add: run_defs)

text \<open>
  Assignment between handle objects of different allocations does share the allocation of
  \<open>that\<close> and adds one to its count.
\<close>

lemma operator_assign_increments:
  assumes "trunks s this = Some t" and "trunks s that = Some u" and "this \<noteq> that"
    and "m_refcount t \<noteq> m_refcount u"
    and "sizes s (m_refcount t) \<noteq> 1 \<or> bools s (m_deleted t)"
  shows "fst (operator_assign this that s) = Ret this \<and>
         same_allocation this that (snd (operator_assign this that s)) \<and>
         refcount that (snd (operator_assign this that s)) = Ret (sizes s (m_refcount u) + 1)"
  using assms
  by (simp add: operator_assign_def give_up_ref_no_leak Let_def same_allocation_def refcount_def)

text \<open>
  C5. The claim has a copy-constructed handle add one to the shared count. \<^verbatim>\<open>Trunk\<close>
  declares no copy constructor; the memberwise one copies the three pointers and adds
  nothing. In \<^verbatim>\<open>a = NEW_ARRAY(int, 4); mem::Trunk<int> c(a);\<close> the objects at 0 and 100 share
  the allocation and the count is still 1 with two live handles; destroying \<^verbatim>\<open>c\<close> then
  takes the count to 0 and reports a leak with exit code 11 while \<^verbatim>\<open>a\<close> is alive.
\<close>

theorem copy_ctor_refcount_not_incremented:
  "fst (Trunk_copy_ctor 100 0 prog_array) = Ret () \<and>
   same_allocation 0 100 prog_copy \<and>
   refcount 0 prog_array = Ret 1 \<and> refcount 100 prog_copy = Ret 1 \<and> refcount 0 prog_copy = Ret 1 \<and>
   fst (Trunk_dtor 100 prog_copy) = Exit 11 \<and>
   cout (snd (Trunk_dtor 100 prog_copy)) = [MemoryLeak \<lparr>t_file = ''f'', t_line = 1\<rparr>] \<and>
   trunks (snd (Trunk_dtor 100 prog_copy)) 0 \<noteq> None"
  by (simp add: run_defs)

section \<open>Explicit free\<close>

lemma free_live_result:
  assumes "trunks s this = Some t" and "\<not> bools s (m_deleted t)" and "m_single t = single"
    and "released (arrays s (m_data t)) = 0"
  shows "free this trace single s =
           (Ret (), s\<lparr>arrays := (arrays s)(m_data t :=
                        (arrays s (m_data t))\<lparr>released := Suc (released (arrays s (m_data t)))\<rparr>),
                      bools := (bools s)(m_deleted t := True),
                      trunks := (trunks s)(this \<mapsto> t\<lparr>m_freed := trace\<rparr>)\<rparr>)"
  using assms by (simp add: free_def delete_array_def Let_def)

lemma free_deleted_result:
  assumes "trunks s this = Some t" and "bools s (m_deleted t)" and "m_single t = single"
  shows "free this trace single s =
           (Exit 12, s\<lparr>cout := cout s @ [DoubleFree (m_freed t) trace]\<rparr>)"
  using assms by (simp add: free_def print_def)

text \<open>
  C6. On a live allocation (the \<^verbatim>\<open>deleted\<close> cell false and the block not released, as
  \<open>store_ok\<close> has it for every allocation not deleted), \<^verbatim>\<open>free\<close> with the matching kind
  returns; the block is released (one \<^verbatim>\<open>delete []\<close>), the
  \<^verbatim>\<open>deleted\<close> cell is set, \<^verbatim>\<open>_freed\<close> of the handle is the trace of the call, nothing is
  printed, and the counts are as before. The new store differs from the old one in these
  three places only, so the kind, the size and the allocation trace of the handle are
  unchanged too.
\<close>

theorem free_matching_live:
  assumes "trunks s this = Some t" and "\<not> bools s (m_deleted t)" and "m_single t = single"
    and "released (arrays s (m_data t)) = 0"
  shows "free this trace single s =
           (Ret (), s\<lparr>arrays := (arrays s)(m_data t :=
                        (arrays s (m_data t))\<lparr>released := Suc (released (arrays s (m_data t)))\<rparr>),
                      bools := (bools s)(m_deleted t := True),
                      trunks := (trunks s)(this \<mapsto> t\<lparr>m_freed := trace\<rparr>)\<rparr>) \<and>
         released (arrays (snd (free this trace single s)) (m_data t)) =
           Suc (released (arrays s (m_data t))) \<and>
         bools (snd (free this trace single s)) (m_deleted t) \<and>
         trunks (snd (free this trace single s)) this = Some (t\<lparr>m_freed := trace\<rparr>) \<and>
         cout (snd (free this trace single s)) = cout s \<and>
         sizes (snd (free this trace single s)) = sizes s"
  using assms by (simp add: free_live_result)

text \<open>C6 at \<^verbatim>\<open>a = NEW_ARRAY(int, 4); DELETE_ARRAY(a);\<close>.\<close>

theorem free_matching_live_witness:
  "trunks prog_array 0 \<noteq> None \<and> \<not> bools prog_array 2 \<and>
   released (arrays prog_array 1) = 0 \<and>
   fst (free 0 \<lparr>t_file = ''f'', t_line = 2\<rparr> False prog_array) = Ret () \<and>
   released (arrays prog_freed 1) = 1 \<and>
   bools prog_freed 2 \<and>
   map_option m_freed (trunks prog_freed 0) = Some \<lparr>t_file = ''f'', t_line = 2\<rparr> \<and>
   cout prog_freed = [] \<and> sizes prog_freed = sizes prog_array"
  using free_matching_live [of prog_array 0 "the (trunks prog_array 0)" False
      "\<lparr>t_file = ''f'', t_line = 2\<rparr>"]
  by (simp add: run_defs)

text \<open>
  A second free through the handle object of the first one cites the trace of the first:
  \<^verbatim>\<open>free\<close> stores it in \<^verbatim>\<open>_freed\<close> of \<open>this\<close>.
\<close>

lemma free_twice_same_handle:
  assumes "trunks s this = Some t" and "\<not> bools s (m_deleted t)" and "m_single t = single"
    and "released (arrays s (m_data t)) = 0"
  shows "fst (free this first single s) = Ret () \<and>
         free this trace single (snd (free this first single s)) =
           (Exit 12, (snd (free this first single s))
              \<lparr>cout := cout s @ [DoubleFree first trace]\<rparr>)"
proof -
  let ?s1 = "s\<lparr>arrays := (arrays s)(m_data t :=
                 (arrays s (m_data t))\<lparr>released := Suc (released (arrays s (m_data t)))\<rparr>),
               bools := (bools s)(m_deleted t := True),
               trunks := (trunks s)(this \<mapsto> t\<lparr>m_freed := first\<rparr>)\<rparr>"
  have f: "free this first single s = (Ret (), ?s1)"
    using assms by (simp add: free_live_result)
  have "free this trace single ?s1 =
      (Exit 12, ?s1\<lparr>cout := cout ?s1 @ [DoubleFree (m_freed (t\<lparr>m_freed := first\<rparr>)) trace]\<rparr>)"
    using assms(3) by (intro free_deleted_result) simp_all
  then show ?thesis
    by (simp add: f)
qed

text \<open>
  C8. The claim has every second free of a freed allocation cite the trace of the previous
  free as the first free. \<^verbatim>\<open>_freed\<close> is a member of each handle object, written by
  \<^verbatim>\<open>free\<close> on \<open>this\<close> only, while the \<^verbatim>\<open>deleted\<close> cell is shared. In \<open>prog_alias\<close> the handle
  objects at 0 and 4 refer to the same allocation; after \<^verbatim>\<open>DELETE_ARRAY(a)\<close> at \<^verbatim>\<open>f:2\<close>,
  \<^verbatim>\<open>DELETE_ARRAY(b)\<close> at \<^verbatim>\<open>f:3\<close> exits with 12 and releases nothing, but the record cites
  \<^verbatim>\<open>_freed\<close> of \<^verbatim>\<open>b\<close>, the empty trace \<^verbatim>\<open>:0\<close>, as the first free. The same second call through
  \<^verbatim>\<open>a\<close> cites \<^verbatim>\<open>f:2\<close>.
\<close>

theorem free_through_alias_cites_own_freed:
  "same_allocation 0 4 prog_alias \<and>
   fst (free 0 \<lparr>t_file = ''f'', t_line = 2\<rparr> False prog_alias) = Ret () \<and>
   fst (free 4 \<lparr>t_file = ''f'', t_line = 3\<rparr> False
         (snd (free 0 \<lparr>t_file = ''f'', t_line = 2\<rparr> False prog_alias))) = Exit 12 \<and>
   cout (snd (free 4 \<lparr>t_file = ''f'', t_line = 3\<rparr> False
         (snd (free 0 \<lparr>t_file = ''f'', t_line = 2\<rparr> False prog_alias)))) =
     [DoubleFree \<lparr>t_file = [], t_line = 0\<rparr> \<lparr>t_file = ''f'', t_line = 3\<rparr>] \<and>
   released (arrays (snd (free 4 \<lparr>t_file = ''f'', t_line = 3\<rparr> False
         (snd (free 0 \<lparr>t_file = ''f'', t_line = 2\<rparr> False prog_alias)))) 1) = 1 \<and>
   cout (snd (free 0 \<lparr>t_file = ''f'', t_line = 3\<rparr> False
         (snd (free 0 \<lparr>t_file = ''f'', t_line = 2\<rparr> False prog_alias)))) =
     [DoubleFree \<lparr>t_file = ''f'', t_line = 2\<rparr> \<lparr>t_file = ''f'', t_line = 3\<rparr>]"
  by (simp add: run_defs)

section \<open>Destruction of a handle\<close>

lemma Trunk_dtor_leak:
  assumes "trunks s this = Some t"
    and "sizes s (m_refcount t) - 1 = 0" and "\<not> bools s (m_deleted t)"
    and "released (arrays s (m_data t)) = 0"
  shows "Trunk_dtor this s =
     (Exit 11,
      s\<lparr>sizes := (sizes s)(m_refcount t := 0),
        cout := cout s @ [MemoryLeak (m_allocated t)],
        arrays := (arrays s)(m_data t :=
           (arrays s (m_data t))\<lparr>released := Suc (released (arrays s (m_data t)))\<rparr>),
        bools := (bools s)(m_deleted t := True)\<rparr>)"
  using assms
  by (simp add: Trunk_dtor_def give_up_ref_def cleanup_and_exit_def print_def delete_array_def Let_def)

lemma Trunk_dtor_no_leak:
  assumes "trunks s this = Some t"
    and "sizes s (m_refcount t) - 1 \<noteq> 0 \<or> bools s (m_deleted t)"
  shows "Trunk_dtor this s =
     (Ret (), s\<lparr>sizes := (sizes s)(m_refcount t := sizes s (m_refcount t) - 1),
               trunks := (trunks s)(this := None)\<rparr>)"
  using assms by (auto simp add: Trunk_dtor_def give_up_ref_def Let_def)

lemma Trunk_dtor_after_free:
  assumes "trunks s this = Some t" and "trunks s h = Some u"
    and "m_deleted u = m_deleted t" and "\<not> bools s (m_deleted t)"
    and "released (arrays s (m_data u)) = 0"
  shows "fst (Trunk_dtor this (snd (free h tr (m_single u) s))) = Ret () \<and>
         cout (snd (Trunk_dtor this (snd (free h tr (m_single u) s)))) = cout s \<and>
         bools (snd (Trunk_dtor this (snd (free h tr (m_single u) s)))) (m_deleted t)"
proof -
  let ?s1 = "s\<lparr>arrays := (arrays s)(m_data u :=
                 (arrays s (m_data u))\<lparr>released := Suc (released (arrays s (m_data u)))\<rparr>),
               bools := (bools s)(m_deleted u := True),
               trunks := (trunks s)(h \<mapsto> u\<lparr>m_freed := tr\<rparr>)\<rparr>"
  let ?t1 = "if h = this then u\<lparr>m_freed := tr\<rparr> else t"
  have f: "free h tr (m_single u) s = (Ret (), ?s1)"
    using assms by (simp add: free_live_result)
  have t1: "trunks ?s1 this = Some ?t1"
    using assms(1) by simp
  have flag: "bools ?s1 (m_deleted ?t1)"
    using assms(3) by simp
  have quiet: "Trunk_dtor this ?s1 =
     (Ret (), ?s1\<lparr>sizes := (sizes ?s1)(m_refcount ?t1 := sizes ?s1 (m_refcount ?t1) - 1),
               trunks := (trunks ?s1)(this := None)\<rparr>)"
    using t1 flag by (rule Trunk_dtor_no_leak [OF _ disjI2])
  have r: "Trunk_dtor this (snd (free h tr (m_single u) s)) =
     (Ret (), ?s1\<lparr>sizes := (sizes ?s1)(m_refcount ?t1 := sizes ?s1 (m_refcount ?t1) - 1),
               trunks := (trunks ?s1)(this := None)\<rparr>)"
    unfolding f snd_conv by (rule quiet)
  show ?thesis
    unfolding r using assms(3) by simp
qed

text \<open>
  C7. Where the block of the allocation, if it is not deleted, has not been released (as
  \<open>store_ok\<close> has it), destroying a handle exits with 11 exactly when the decremented count is zero and
  the \<^verbatim>\<open>deleted\<close> cell is still false, and exactly then the leak record with the allocation
  trace is printed; in every other case the destructor returns and prints nothing.
  Consequently, after a matching free through any handle \<open>h\<close> of the allocation (one that
  shares its \<^verbatim>\<open>deleted\<close> cell and its block), destroying a handle of it returns and prints
  nothing, whatever the count is, and the \<^verbatim>\<open>deleted\<close> cell stays set for the handles that
  remain.
\<close>

theorem Trunk_dtor_leak_iff:
  assumes "trunks s this = Some t"
    and "bools s (m_deleted t) \<or> released (arrays s (m_data t)) = 0"
  shows "(fst (Trunk_dtor this s) = Exit 11) =
           (sizes s (m_refcount t) - 1 = 0 \<and> \<not> bools s (m_deleted t)) \<and>
         (cout (snd (Trunk_dtor this s)) = cout s @ [MemoryLeak (m_allocated t)]) =
           (sizes s (m_refcount t) - 1 = 0 \<and> \<not> bools s (m_deleted t)) \<and>
         (fst (Trunk_dtor this s) = Ret () \<and> cout (snd (Trunk_dtor this s)) = cout s) =
           (\<not> (sizes s (m_refcount t) - 1 = 0 \<and> \<not> bools s (m_deleted t))) \<and>
         (\<forall>h u tr. trunks s h = Some u \<and> m_deleted u = m_deleted t \<and> m_data u = m_data t \<and>
              \<not> bools s (m_deleted t) \<longrightarrow>
            fst (Trunk_dtor this (snd (free h tr (m_single u) s))) = Ret () \<and>
            cout (snd (Trunk_dtor this (snd (free h tr (m_single u) s)))) = cout s \<and>
            bools (snd (Trunk_dtor this (snd (free h tr (m_single u) s)))) (m_deleted t))"
proof -
  have after: "\<forall>h u tr. trunks s h = Some u \<and> m_deleted u = m_deleted t \<and> m_data u = m_data t \<and>
              \<not> bools s (m_deleted t) \<longrightarrow>
            fst (Trunk_dtor this (snd (free h tr (m_single u) s))) = Ret () \<and>
            cout (snd (Trunk_dtor this (snd (free h tr (m_single u) s)))) = cout s \<and>
            bools (snd (Trunk_dtor this (snd (free h tr (m_single u) s)))) (m_deleted t)"
  proof (intro allI impI)
    fix h u tr
    assume a: "trunks s h = Some u \<and> m_deleted u = m_deleted t \<and> m_data u = m_data t \<and>
              \<not> bools s (m_deleted t)"
    then have "released (arrays s (m_data u)) = 0"
      using assms(2) by simp
    with a assms(1) show "fst (Trunk_dtor this (snd (free h tr (m_single u) s))) = Ret () \<and>
            cout (snd (Trunk_dtor this (snd (free h tr (m_single u) s)))) = cout s \<and>
            bools (snd (Trunk_dtor this (snd (free h tr (m_single u) s)))) (m_deleted t)"
      by (intro Trunk_dtor_after_free) simp_all
  qed
  show ?thesis
  proof (cases "sizes s (m_refcount t) - 1 = 0 \<and> \<not> bools s (m_deleted t)")
    case True
    then have leak: "Trunk_dtor this s =
       (Exit 11,
        s\<lparr>sizes := (sizes s)(m_refcount t := 0),
          cout := cout s @ [MemoryLeak (m_allocated t)],
          arrays := (arrays s)(m_data t :=
             (arrays s (m_data t))\<lparr>released := Suc (released (arrays s (m_data t)))\<rparr>),
          bools := (bools s)(m_deleted t := True)\<rparr>)"
      using assms by (simp add: Trunk_dtor_leak)
    show ?thesis using True after by (simp add: leak)
  next
    case False
    then have quiet: "Trunk_dtor this s =
       (Ret (), s\<lparr>sizes := (sizes s)(m_refcount t := sizes s (m_refcount t) - 1),
                 trunks := (trunks s)(this := None)\<rparr>)"
      using assms by (simp add: Trunk_dtor_no_leak)
    show ?thesis using False after by (simp add: quiet)
  qed
qed

text \<open>
  C7 at \<^verbatim>\<open>a = NEW_ARRAY(int, 4);\<close>, where destroying the only handle leaks, at the
  same program after \<^verbatim>\<open>DELETE_ARRAY(a);\<close>, where it does not, and at the two aliases of
  \<open>prog_alias\<close>: after a free through the one, destroying the other is silent.
\<close>

theorem Trunk_dtor_leak_iff_witness:
  "trunks prog_array 0 \<noteq> None \<and> trunks prog_freed 0 \<noteq> None \<and>
   released (arrays prog_array 1) = 0 \<and>
   sizes prog_array 3 - 1 = 0 \<and> \<not> bools prog_array 2 \<and> bools prog_freed 2 \<and>
   fst (Trunk_dtor 0 prog_array) = Exit 11 \<and>
   cout (snd (Trunk_dtor 0 prog_array)) = cout prog_array @ [MemoryLeak \<lparr>t_file = ''f'', t_line = 1\<rparr>] \<and>
   fst (Trunk_dtor 0 prog_freed) = Ret () \<and> cout (snd (Trunk_dtor 0 prog_freed)) = cout prog_freed \<and>
   trunks prog_alias 4 \<noteq> None \<and> same_allocation 4 0 prog_alias \<and> \<not> bools prog_alias 2 \<and>
   released (arrays prog_alias 1) = 0 \<and>
   fst (Trunk_dtor 4 (snd (free 0 \<lparr>t_file = ''f'', t_line = 2\<rparr> False prog_alias))) = Ret () \<and>
   cout (snd (Trunk_dtor 4 (snd (free 0 \<lparr>t_file = ''f'', t_line = 2\<rparr> False prog_alias)))) = []"
  using Trunk_dtor_leak_iff [of prog_array 0 "the (trunks prog_array 0)"]
    Trunk_dtor_leak_iff [of prog_freed 0 "the (trunks prog_freed 0)"]
    Trunk_dtor_leak_iff [of prog_alias 4 "the (trunks prog_alias 4)"]
  by (simp add: run_defs)

section \<open>Increment and decrement\<close>

text \<open>
  C9, as stated, fails on handles. With the cursor of \<^verbatim>\<open>a\<close> at 0, the pre-increment
  \<^verbatim>\<open>++a\<close> (\<^verbatim>\<open>Trunk::operator++()\<close>) returns the cursor 1, the value after the mutation,
  and the post-increment \<^verbatim>\<open>a++\<close> returns 0, the value before it.
\<close>

theorem Trunk_preinc_returns_new_counterexample:
  "cursor 0 prog_array = Some 0 \<and>
   fst (Trunk_preinc 0 prog_array) = Ret \<lparr>it_trunk = 0, it_idx = 1\<rparr> \<and>
   cursor 0 (snd (Trunk_preinc 0 prog_array)) = Some 1 \<and>
   fst (Trunk_postinc 0 prog_array) = Ret \<lparr>it_trunk = 0, it_idx = 0\<rparr> \<and>
   cursor 0 (snd (Trunk_postinc 0 prog_array)) = Some 1"
  by (simp add: run_defs)

text \<open>
  C9, amended. On \<^verbatim>\<open>Trunk::Iter\<close> the operator named as pre-increment (pre-decrement)
  returns the value before the mutation and the one named as post-increment
  (post-decrement) the value after it. On a handle each operator calls the other form on
  \<^verbatim>\<open>_iter\<close>, so the pre-forms return the value after the mutation and the post-forms the
  value before it; both forms leave the same store. In all cases the two forms return
  different values.
\<close>

theorem increment_return_values:
  assumes "trunks s this = Some t"
  shows "fst (Iter_preinc it) = it \<and> it_idx (snd (Iter_preinc it)) = it_idx it + 1 \<and>
         fst (Iter_postinc it) = it\<lparr>it_idx := it_idx it + 1\<rparr> \<and> snd (Iter_postinc it) = fst (Iter_postinc it) \<and>
         fst (Iter_predec it) = it \<and> it_idx (snd (Iter_predec it)) = it_idx it - 1 \<and>
         fst (Iter_postdec it) = it\<lparr>it_idx := it_idx it - 1\<rparr> \<and> snd (Iter_postdec it) = fst (Iter_postdec it) \<and>
         fst (Trunk_preinc this s) = Ret ((m_iter t)\<lparr>it_idx := it_idx (m_iter t) + 1\<rparr>) \<and>
         fst (Trunk_postinc this s) = Ret (m_iter t) \<and>
         fst (Trunk_predec this s) = Ret ((m_iter t)\<lparr>it_idx := it_idx (m_iter t) - 1\<rparr>) \<and>
         fst (Trunk_postdec this s) = Ret (m_iter t) \<and>
         snd (Trunk_preinc this s) = snd (Trunk_postinc this s) \<and>
         snd (Trunk_predec this s) = snd (Trunk_postdec this s) \<and>
         fst (Iter_preinc it) \<noteq> fst (Iter_postinc it) \<and>
         fst (Iter_predec it) \<noteq> fst (Iter_postdec it) \<and>
         fst (Trunk_preinc this s) \<noteq> fst (Trunk_postinc this s) \<and>
         fst (Trunk_predec this s) \<noteq> fst (Trunk_postdec this s)"
proof -
  have ne: "\<And>r :: Iter. r\<lparr>it_idx := it_idx r + 1\<rparr> \<noteq> r" "\<And>r :: Iter. r\<lparr>it_idx := it_idx r - 1\<rparr> \<noteq> r"
           "\<And>r :: Iter. r \<noteq> r\<lparr>it_idx := it_idx r + 1\<rparr>" "\<And>r :: Iter. r \<noteq> r\<lparr>it_idx := it_idx r - 1\<rparr>"
    subgoal for r by (cases r) simp
    subgoal for r by (cases r) simp
    subgoal for r by (cases r) simp
    subgoal for r by (cases r) simp
    done
  show ?thesis
    using assms ne
    by (simp add: with_iter_def Trunk_preinc_def Trunk_postinc_def Trunk_predec_def
      Trunk_postdec_def Iter_preinc_def Iter_postinc_def Iter_predec_def Iter_postdec_def Let_def)
qed

text \<open>The amended C9 at \<^verbatim>\<open>a = NEW_ARRAY(int, 4);\<close> and an \<^verbatim>\<open>Iter\<close> at index 7.\<close>

theorem increment_return_values_witness:
  "trunks prog_array 0 \<noteq> None \<and>
   fst (Iter_preinc \<lparr>it_trunk = 0, it_idx = 7\<rparr>) = \<lparr>it_trunk = 0, it_idx = 7\<rparr> \<and>
   fst (Iter_postinc \<lparr>it_trunk = 0, it_idx = 7\<rparr>) = \<lparr>it_trunk = 0, it_idx = 8\<rparr> \<and>
   fst (Trunk_preinc 0 prog_array) = Ret \<lparr>it_trunk = 0, it_idx = 1\<rparr> \<and>
   fst (Trunk_postinc 0 prog_array) = Ret \<lparr>it_trunk = 0, it_idx = 0\<rparr> \<and>
   fst (Trunk_predec 0 prog_array) = Ret \<lparr>it_trunk = 0, it_idx = - 1\<rparr> \<and>
   fst (Trunk_postdec 0 prog_array) = Ret \<lparr>it_trunk = 0, it_idx = 0\<rparr>"
  using increment_return_values [of prog_array 0 "the (trunks prog_array 0)"
      "\<lparr>it_trunk = 0, it_idx = 7\<rparr>"]
  by (simp add: run_defs)

section \<open>Offsets of a handle\<close>

text \<open>\<^verbatim>\<open>operator+\<close> and \<^verbatim>\<open>operator-\<close> of a handle check nothing and leave the store as it is.\<close>

lemma Trunk_plus_no_check:
  assumes "trunks s this = Some t"
  shows "Trunk_plus this n s =
           (Ret \<lparr>it_trunk = it_trunk (m_iter t), it_idx = it_idx (m_iter t) + scast n\<rparr>, s) \<and>
         Trunk_minus this n s =
           (Ret \<lparr>it_trunk = it_trunk (m_iter t), it_idx = it_idx (m_iter t) - scast n\<rparr>, s)"
  using assms by (simp add: Trunk_plus_def Trunk_minus_def Iter_plus_def Iter_minus_def)

text \<open>The index of the result is the sum, or the difference, modulo \<open>2\<^sup>6\<^sup>4\<close>.\<close>

lemma offset_wraps:
  "uint (a + scast (n :: 32 word) :: 64 word) = (uint a + sint n) mod 2 ^ 64"
  "uint (a - scast (n :: 32 word) :: 64 word) = (uint a - sint n) mod 2 ^ 64"
proof -
  have u: "uint (scast n :: 64 word) = sint n mod 2 ^ 64"
    by (simp only: scast_eq uint_word_of_int) simp
  have "uint (a + scast n) = (uint a + uint (scast n :: 64 word)) mod 2 ^ 64"
    by (simp only: uint_word_ariths) simp
  then show "uint (a + scast n) = (uint a + sint n) mod 2 ^ 64"
    by (simp only: u mod_add_right_eq)
  have "uint (a - scast n) = (uint a - uint (scast n :: 64 word)) mod 2 ^ 64"
    by (simp only: uint_word_ariths) simp
  then show "uint (a - scast n) = (uint a - sint n) mod 2 ^ 64"
    by (simp only: u mod_diff_right_eq)
qed


section \<open>Stores the program reaches\<close>

text \<open>
  The empty store satisfies \<open>store_ok\<close>, and every call that returns keeps it: allocation,
  free, assignment, copy, destruction, the increments and decrements, and element access.
  So in every store a program reaches a live allocation has its block unreleased, and the
  handles that share its \<^verbatim>\<open>deleted\<close> cell share its block.
\<close>

lemma store_ok_init: "store_ok init_memory"
  by (simp add: store_ok_def init_memory_def)

lemma store_ok_live:
  assumes "store_ok s" and "trunks s h = Some t" and "\<not> bools s (m_deleted t)"
  shows "released (arrays s (m_data t)) = 0"
  using assms unfolding store_ok_def by blast

lemma store_ok_released:
  assumes "store_ok s" and "trunks s h = Some t"
  shows "bools s (m_deleted t) \<or> released (arrays s (m_data t)) = 0"
  using assms by (auto simp add: store_ok_def)

lemma store_ok_below_brk:
  assumes "store_ok s" and "trunks s h = Some t"
  shows "m_data t < brk s \<and> m_deleted t < brk s"
  using assms by (auto simp add: store_ok_def)

lemma store_ok_alias:
  assumes "store_ok s" and "trunks s h = Some t" and "trunks s h' = Some u"
  shows "(m_data t = m_data u) = (m_deleted t = m_deleted u)"
  using assms unfolding store_ok_def by blast

lemma store_ok_step:
  assumes ok: "store_ok s"
    and brk: "brk s \<le> brk s'"
    and ptrs: "\<And>h t. trunks s' h = Some t \<Longrightarrow>
        \<exists>h0 t0. trunks s h0 = Some t0 \<and> m_data t = m_data t0 \<and> m_deleted t = m_deleted t0"
    and rel: "\<And>h0 t0. trunks s h0 = Some t0 \<Longrightarrow>
        bools s' (m_deleted t0) \<or> released (arrays s' (m_data t0)) = 0"
  shows "store_ok s'"
  unfolding store_ok_def
proof (rule conjI; intro allI impI)
  fix h t
  assume h: "trunks s' h = Some t"
  then obtain h0 t0 where t0: "trunks s h0 = Some t0" "m_data t = m_data t0"
      "m_deleted t = m_deleted t0"
    using ptrs by blast
  have "m_data t0 < brk s \<and> m_deleted t0 < brk s"
    using ok t0(1) by (rule store_ok_below_brk)
  then show "m_data t < brk s' \<and> m_deleted t < brk s' \<and>
      (bools s' (m_deleted t) \<or> released (arrays s' (m_data t)) = 0)"
    using brk rel [OF t0(1)] t0(2,3) by simp
next
  fix h t h' t'
  assume a: "trunks s' h = Some t \<and> trunks s' h' = Some t'"
  obtain h0 t0 where t0: "trunks s h0 = Some t0" "m_data t = m_data t0"
      "m_deleted t = m_deleted t0"
    using ptrs a by blast
  obtain h1 t1 where t1: "trunks s h1 = Some t1" "m_data t' = m_data t1"
      "m_deleted t' = m_deleted t1"
    using ptrs a by blast
  show "(m_data t = m_data t') = (m_deleted t = m_deleted t')"
    using store_ok_alias [OF ok t0(1) t1(1)] t0(2,3) t1(2,3) by simp
qed

lemma store_ok_free:
  assumes ok: "store_ok s" and ret: "free this trace single s = (Ret x, s')"
  shows "store_ok s'"
proof (cases "trunks s this")
  case None
  with ret show ?thesis by (simp add: free_def)
next
  case (Some t)
  have live: "\<not> bools s (m_deleted t)" and rel: "released (arrays s (m_data t)) = 0"
    and kind: "m_single t = single"
    using ret Some
    by (auto simp add: free_def cleanup_and_exit_def delete_array_def print_def
        split: if_splits)
  have s': "s' = s\<lparr>arrays := (arrays s)(m_data t :=
                        (arrays s (m_data t))\<lparr>released := Suc (released (arrays s (m_data t)))\<rparr>),
                      bools := (bools s)(m_deleted t := True),
                      trunks := (trunks s)(this \<mapsto> t\<lparr>m_freed := trace\<rparr>)\<rparr>"
    using ret free_live_result [OF Some live kind rel, of trace] by simp
  show ?thesis
  proof (rule store_ok_step [OF ok])
    show "brk s \<le> brk s'" by (simp add: s')
  next
    fix h u
    assume "trunks s' h = Some u"
    then show "\<exists>h0 t0. trunks s h0 = Some t0 \<and> m_data u = m_data t0 \<and> m_deleted u = m_deleted t0"
      using Some by (cases "h = this") (force simp add: s')+
  next
    fix h0 t0
    assume t0: "trunks s h0 = Some t0"
    show "bools s' (m_deleted t0) \<or> released (arrays s' (m_data t0)) = 0"
    proof (cases "m_deleted t0 = m_deleted t")
      case True
      then show ?thesis by (simp add: s')
    next
      case False
      then have "m_data t0 \<noteq> m_data t"
        using store_ok_alias [OF ok t0 Some] by simp
      moreover have "bools s (m_deleted t0) \<or> released (arrays s (m_data t0)) = 0"
        using ok t0 by (rule store_ok_released)
      ultimately show ?thesis using False by (simp add: s')
    qed
  qed
qed

lemma store_ok_unreleasing:
  assumes ok: "store_ok s"
    and "brk s' = brk s" and "bools s' = bools s" and "arrays s' = arrays s"
    and ptrs: "\<And>h t. trunks s' h = Some t \<Longrightarrow>
        \<exists>h0 t0. trunks s h0 = Some t0 \<and> m_data t = m_data t0 \<and> m_deleted t = m_deleted t0"
  shows "store_ok s'"
proof (rule store_ok_step [OF ok])
  show "brk s \<le> brk s'" using assms(2) by simp
next
  fix h t assume "trunks s' h = Some t"
  then show "\<exists>h0 t0. trunks s h0 = Some t0 \<and> m_data t = m_data t0 \<and> m_deleted t = m_deleted t0"
    by (rule ptrs)
next
  fix h0 t0 assume "trunks s h0 = Some t0"
  then show "bools s' (m_deleted t0) \<or> released (arrays s' (m_data t0)) = 0"
    unfolding assms(3,4) using ok by (rule store_ok_released [rotated])
qed

lemma give_up_ref_Ret:
  assumes "give_up_ref this s = (Ret x, s')"
  shows "\<exists>t. trunks s this = Some t \<and>
           s' = s\<lparr>sizes := (sizes s)(m_refcount t := sizes s (m_refcount t) - 1)\<rparr>"
  using assms
  by (auto simp add: give_up_ref_def cleanup_and_exit_def delete_array_def print_def Let_def
      split: option.splits if_splits)

lemma store_ok_dtor:
  assumes ok: "store_ok s" and ret: "Trunk_dtor this s = (Ret x, s')"
  shows "store_ok s'"
proof -
  obtain r s1 where g0: "give_up_ref this s = (r, s1)"
    by (cases "give_up_ref this s")
  obtain y where g: "give_up_ref this s = (Ret y, s1)"
    using ret g0 by (cases r) (auto simp add: Trunk_dtor_def)
  then obtain t where t: "trunks s this = Some t"
      "s1 = s\<lparr>sizes := (sizes s)(m_refcount t := sizes s (m_refcount t) - 1)\<rparr>"
    using give_up_ref_Ret by blast
  have s': "s' = s1\<lparr>trunks := (trunks s1)(this := None)\<rparr>"
    using ret by (simp add: Trunk_dtor_def g)
  show ?thesis
  proof (rule store_ok_unreleasing [OF ok])
    fix h u assume "trunks s' h = Some u"
    then show "\<exists>h0 t0. trunks s h0 = Some t0 \<and> m_data u = m_data t0 \<and> m_deleted u = m_deleted t0"
      by (cases "h = this") (force simp add: s' t(2))+
  qed (simp_all add: s' t(2))
qed

lemma store_ok_assign:
  assumes ok: "store_ok s" and ret: "operator_assign this that s = (Ret x, s')"
  shows "store_ok s'"
proof (cases "this = that")
  case True
  with ret ok show ?thesis by (simp add: operator_assign_def)
next
  case False
  obtain r s1 where g0: "give_up_ref this s = (r, s1)"
    by (cases "give_up_ref this s")
  obtain y where g: "give_up_ref this s = (Ret y, s1)"
    using ret False g0 by (cases r) (auto simp add: operator_assign_def)
  then obtain t where t: "trunks s this = Some t"
      "s1 = s\<lparr>sizes := (sizes s)(m_refcount t := sizes s (m_refcount t) - 1)\<rparr>"
    using give_up_ref_Ret by blast
  obtain u where u: "trunks s that = Some u"
    using ret False by (auto simp add: operator_assign_def g t(2) split: option.splits)
  have s': "trunks s' = (trunks s)(this \<mapsto>
                  u\<lparr>m_iter := \<lparr>it_trunk = this, it_idx = it_idx (m_iter u)\<rparr>\<rparr>)"
      "brk s' = brk s" "bools s' = bools s" "arrays s' = arrays s"
    using ret False by (auto simp add: operator_assign_def g t(2) u Let_def)
  show ?thesis
  proof (rule store_ok_unreleasing [OF ok])
    fix h v assume "trunks s' h = Some v"
    then show "\<exists>h0 t0. trunks s h0 = Some t0 \<and> m_data v = m_data t0 \<and> m_deleted v = m_deleted t0"
      using u by (cases "h = this") (force simp add: s')+
  qed (simp_all add: s')
qed

lemma store_ok_copy_ctor:
  assumes ok: "store_ok s" and ret: "Trunk_copy_ctor this that s = (Ret x, s')"
  shows "store_ok s'"
proof -
  obtain u where u: "trunks s that = Some u" and s': "s' = s\<lparr>trunks := (trunks s)(this \<mapsto> u)\<rparr>"
    using ret by (auto simp add: Trunk_copy_ctor_def split: option.splits)
  show ?thesis
  proof (rule store_ok_unreleasing [OF ok])
    fix h v assume "trunks s' h = Some v"
    then show "\<exists>h0 t0. trunks s h0 = Some t0 \<and> m_data v = m_data t0 \<and> m_deleted v = m_deleted t0"
      using u by (cases "h = this") (force simp add: s')+
  qed (simp_all add: s')
qed

lemma store_ok_with_iter:
  assumes ok: "store_ok s" and ret: "with_iter f this s = (Ret x, s')"
  shows "store_ok s'"
proof -
  obtain t where t: "trunks s this = Some t"
    and s': "s' = s\<lparr>trunks := (trunks s)(this \<mapsto> t\<lparr>m_iter := snd (f (m_iter t))\<rparr>)\<rparr>"
    using ret by (auto simp add: with_iter_def Let_def split: option.splits prod.splits)
  show ?thesis
  proof (rule store_ok_unreleasing [OF ok])
    fix h v assume "trunks s' h = Some v"
    then show "\<exists>h0 t0. trunks s h0 = Some t0 \<and> m_data v = m_data t0 \<and> m_deleted v = m_deleted t0"
      using t by (cases "h = this") (force simp add: s')+
  qed (simp_all add: s')
qed

lemma operator_index_Ret:
  assumes "operator_index this idx s = (Ret x, s')"
  shows "s' = s"
  using assms
  by (auto simp add: operator_index_def validate_def check_access_after_freed_def
      cleanup_and_exit_def delete_array_def print_def split: option.splits if_splits)

lemma store_ok_alloc:
  assumes ok: "store_ok s" and ret: "alloc count f l single s = (Ret p, s')"
  shows "store_ok s'"
proof -
  let ?t = "\<lparr>m_allocated = \<lparr>t_file = f, t_line = l\<rparr>, m_freed = Trace_default, m_single = single,
             m_data = Suc (brk s), m_size = count, m_iter = \<lparr>it_trunk = brk s, it_idx = 0\<rparr>,
             m_deleted = Suc (Suc (brk s)), m_refcount = Suc (Suc (Suc (brk s)))\<rparr>"
  have s': "s' = s\<lparr>brk := Suc (Suc (Suc (Suc (brk s)))),
                  arrays := (arrays s)(Suc (brk s) :=
                     \<lparr>cells = replicate (unat count) None, released = 0\<rparr>),
                  bools := (bools s)(Suc (Suc (brk s)) := False),
                  sizes := (sizes s)(Suc (Suc (Suc (brk s))) := 1),
                  trunks := (trunks s)(brk s \<mapsto> ?t),
                  pool := pool s @ [brk s]\<rparr>"
    using ret
    by (auto simp add: alloc_def Trunk_ctor_def new_array_def new_bool_def new_size_t_def Let_def
        split: if_splits)
  have old: "\<And>h t. trunks s h = Some t \<Longrightarrow> m_data t < brk s \<and> m_deleted t < brk s \<and>
        (bools s (m_deleted t) \<or> released (arrays s (m_data t)) = 0)"
    by (simp add: store_ok_released [OF ok] store_ok_below_brk [OF ok])
  show ?thesis
    unfolding store_ok_def
  proof (rule conjI; intro allI impI)
    fix h t assume h: "trunks s' h = Some t"
    show "m_data t < brk s' \<and> m_deleted t < brk s' \<and>
        (bools s' (m_deleted t) \<or> released (arrays s' (m_data t)) = 0)"
    proof (cases "h = brk s")
      case True
      with h show ?thesis by (auto simp add: s')
    next
      case False
      with h have "trunks s h = Some t" by (simp add: s')
      from old [OF this] show ?thesis by (auto simp add: s')
    qed
  next
    fix h t h' t'
    assume a: "trunks s' h = Some t \<and> trunks s' h' = Some t'"
    have new: "\<And>k v. trunks s' k = Some v \<Longrightarrow>
        (k = brk s \<and> v = ?t) \<or> (trunks s k = Some v \<and> m_data v < brk s \<and> m_deleted v < brk s)"
      using old by (auto simp add: s' split: if_splits)
    from new [of h t] new [of h' t'] a
    show "(m_data t = m_data t') = (m_deleted t = m_deleted t')"
      using store_ok_alias [OF ok] by auto
  qed
qed

lemma store_ok_store:
  assumes ok: "store_ok s"
  shows "store_ok (store r v s)"
proof (rule store_ok_step [OF ok])
  show "brk s \<le> brk (store r v s)"
    by (simp add: store_def)
next
  fix h t assume "trunks (store r v s) h = Some t"
  then show "\<exists>h0 t0. trunks s h0 = Some t0 \<and> m_data t = m_data t0 \<and> m_deleted t = m_deleted t0"
    by (force simp add: store_def)
next
  fix h0 t0 assume "trunks s h0 = Some t0"
  with ok have "bools s (m_deleted t0) \<or> released (arrays s (m_data t0)) = 0"
    by (rule store_ok_released)
  then show "bools (store r v s) (m_deleted t0) \<or>
      released (arrays (store r v s) (m_data t0)) = 0"
    by (auto simp add: store_def)
qed

end
